theory Spec2Isabelle
  imports Main "HOL-Library.Word"
begin

section \<open>CanSocket.h: sending and receiving CAN frames over SocketCAN\<close>

subsection \<open>Platform types and constants\<close>

type_synonym uint8 = "8 word"
type_synonym uint16 = "16 word"
type_synonym CanIDType = "32 word"

text \<open>\<open>CAN_STD::DATA_LEN\<close> and \<open>CAN_FD::DATA_LEN\<close>: the sizes of \<open>CanStdData\<close>
  (\<open>std::array<uint8, 8>\<close>) and \<open>CanFDData\<close> (\<open>std::array<uint8, 64>\<close>).\<close>

definition CAN_STD_DATA_LEN :: nat where
  "CAN_STD_DATA_LEN = 8"

definition CAN_FD_DATA_LEN :: nat where
  "CAN_FD_DATA_LEN = 64"

text \<open>Constants of the operating system's headers (\<open>linux/can.h\<close>, \<open>net/if.h\<close>), which
  the source includes: \<open>sizeof(struct can_frame)\<close>, \<open>sizeof(struct canfd_frame)\<close>, the
  offset of the \<open>data\<close> member in both structures, the size of \<open>canfd_frame::data\<close>,
  and the size of \<open>ifreq::ifr_name\<close>.\<close>

definition CAN_MTU :: nat where
  "CAN_MTU = 16"

definition CANFD_MTU :: nat where
  "CANFD_MTU = 72"

definition CAN_DATA_OFFSET :: nat where
  "CAN_DATA_OFFSET = 8"

definition CANFD_MAX_DLEN :: nat where
  "CANFD_MAX_DLEN = 64"

definition IFNAMSIZ :: nat where
  "IFNAMSIZ = 16"

definition NUL :: char where
  "NUL = CHR 0x00"

subsection \<open>Data\<close>

text \<open>\<open>struct canfd_frame\<close>, the type of the local \<open>frame\<close> in \<open>send\<close>: identifier
  (bytes 0..3), length (byte 4), flags and two reserved bytes (bytes 5..7), and 64 data
  bytes from byte 8 on. \<open>struct can_frame\<close> has the same first eight bytes and 8 data
  bytes.\<close>

record canfd_frame =
  frame_can_id :: CanIDType
  frame_len :: uint8
  frame_flags :: uint8
  frame_res0 :: uint8
  frame_res1 :: uint8
  frame_data :: "uint8 list"

text \<open>The members of a \<open>CanSocket\<close> object that the header's code reads or writes.
  \<open>m_socket_init\<close>, \<open>m_socket\<close> and \<open>m_last_error\<close> belong to the base class
  \<open>Socket\<close>; \<open>m_ifr_name\<close> and \<open>m_ifr_ifindex\<close> are \<open>m_ifr.ifr_name\<close> and
  \<open>m_ifr.ifr_ifindex\<close>.\<close>

record CanSocket =
  m_socket_init :: bool
  m_socket :: int
  m_last_error :: int
  m_ifr_name :: "char list"
  m_ifr_ifindex :: "32 word"
  m_can_init :: bool

text \<open>Undefined behaviour of the C++ code is a value of the model: an access to an array
  outside its bounds, with the index.\<close>

datatype fault = ReadOutOfBounds nat | WriteOutOfBounds nat

text \<open>One call of the POSIX \<open>write\<close>: the descriptor, the object the buffer pointer
  points to, and the byte count. The bytes handed over are the first \<open>wr_count\<close>
  bytes of \<open>wr_buf\<close>.\<close>

record write_call =
  wr_fd :: int
  wr_buf :: canfd_frame
  wr_count :: nat

text \<open>What a call of \<open>send\<close> leaves behind: the value returned, the object, and the
  call of \<open>write\<close> it made, if it made one.\<close>

record send_outcome =
  data_sent :: int
  self :: CanSocket
  os_write :: "write_call option"

subsection \<open>Members declared in the header and defined elsewhere\<close>

text \<open>Modelled from the spec: the body of \<open>is_can_initialized\<close> is in the
  implementation file. The header documents it as "Checks if the CAN is initialized
  properly", and the spec as the readiness predicate over the flag the constructor
  sets.\<close>

definition is_can_initialized :: "CanSocket \<Rightarrow> bool" where
  "is_can_initialized this = m_can_init this"

text \<open>Modelled from the spec: \<open>is_socket_initialized\<close> and \<open>get_socket_handle\<close> are
  supplied by the generic socket base abstraction; they report whether the socket was
  created and hand out the owned descriptor.\<close>

definition is_socket_initialized :: "CanSocket \<Rightarrow> bool" where
  "is_socket_initialized this = m_socket_init this"

definition get_socket_handle :: "CanSocket \<Rightarrow> int" where
  "get_socket_handle this = m_socket this"

subsection \<open>send\<close>

text \<open>\<open>static_cast< AR::sint8 >(send_res)\<close>: the low eight bits, read as two's
  complement.\<close>

definition static_cast_sint8 :: "int \<Rightarrow> int" where
  "static_cast_sint8 r = sint (word_of_int r :: 8 word)"

text \<open>\<open>sizeof(SelectedFrame)\<close>: \<open>struct can_frame\<close> if the payload type is
  \<open>CanStdData\<close>, \<open>struct canfd_frame\<close> otherwise. The payload array is a list; its
  type is read off its length, as \<open>data.size()\<close> is.\<close>

definition sizeof_SelectedFrame :: "uint8 list \<Rightarrow> nat" where
  "sizeof_SelectedFrame data =
     (if length data = CAN_STD_DATA_LEN then CAN_MTU else CANFD_MTU)"

text \<open>The \<open>static_assert\<close> of \<open>send\<close>: the payload is a \<open>CanStdData\<close> or a
  \<open>CanFDData\<close>.\<close>

definition static_assert_CANFrame :: "uint8 list \<Rightarrow> bool" where
  "static_assert_CANFrame data =
     (length data = CAN_STD_DATA_LEN \<or> length data = CAN_FD_DATA_LEN)"

text \<open>The local \<open>frame\<close> is declared without an initialiser: its contents are whatever
  the stack holds, a parameter of the model. It is well formed when its data member
  has the 64 bytes of the type.\<close>

definition wf_frame :: "canfd_frame \<Rightarrow> bool" where
  "wf_frame f = (length (frame_data f) = CANFD_MAX_DLEN)"

text \<open>\<open>std::memset(&frame, 0, n)\<close> on a \<open>struct canfd_frame\<close>: the members that lie
  within the first \<open>n\<close> bytes become zero, the others keep their contents. \<open>send\<close>
  calls it with 16 and with 72 only, so that \<open>n\<close> never cuts through the
  identifier.\<close>

definition memset_frame :: "nat \<Rightarrow> canfd_frame \<Rightarrow> canfd_frame" where
  "memset_frame n f =
     \<lparr> frame_can_id = (if 4 \<le> n then 0 else frame_can_id f),
       frame_len = (if 5 \<le> n then 0 else frame_len f),
       frame_flags = (if 6 \<le> n then 0 else frame_flags f),
       frame_res0 = (if 7 \<le> n then 0 else frame_res0 f),
       frame_res1 = (if 8 \<le> n then 0 else frame_res1 f),
       frame_data =
         replicate (min (n - CAN_DATA_OFFSET) (length (frame_data f))) 0
           @ drop (n - CAN_DATA_OFFSET) (frame_data f) \<rparr>"

text \<open>The copy loop \<open>for (AR::uint8 i = 0U; i < len; ++i) frame.data[i] = data[i];\<close>
  with both array accesses checked.\<close>

function copy_loop :: "uint8 \<Rightarrow> uint8 \<Rightarrow> uint8 list \<Rightarrow> uint8 list \<Rightarrow> fault + uint8 list" where
  "copy_loop i len data fdata =
     (if i < len then
        if length data \<le> unat i then Inl (ReadOutOfBounds (unat i))
        else if length fdata \<le> unat i then Inl (WriteOutOfBounds (unat i))
        else copy_loop (i + 1) len data (fdata[unat i := data ! unat i])
      else Inr fdata)"
  by pat_completeness auto

termination
proof (relation "measure (\<lambda>(i, len, data, fdata). unat len - unat i)")
  show "wf (measure (\<lambda>(i :: uint8, len :: uint8, data :: uint8 list, fdata :: uint8 list).
      unat len - unat i))"
    by simp
next
  fix i len :: uint8 and data fdata :: "uint8 list"
  assume lt: "i < len"
  then have "unat i < unat len"
    by (simp add: word_less_nat_alt)
  moreover have "unat len < 2 ^ LENGTH(8)"
    by (rule unsigned_less)
  ultimately have "unat i + unat (1 :: uint8) < 2 ^ LENGTH(8)"
    by simp
  then have "unat (i + 1) = unat i + 1"
    by (simp add: unat_add_lem [THEN iffD1])
  with \<open>unat i < unat len\<close> show "((i + 1, len, data, fdata[unat i := data ! unat i]), (i, len, data, fdata))
      \<in> measure (\<lambda>(i, len, data, fdata). unat len - unat i)"
    by simp
qed

declare copy_loop.simps [simp del]

text \<open>\<open>send\<close>. \<open>send_res\<close> is what \<open>write\<close> returns to this call and \<open>errno\<close> the
  error number as \<open>write\<close> leaves it. On the failure path the source runs the output
  statement \<open>std::cout << "Send failed with error number: " << errno\<close>
  between \<open>write\<close> and the store \<open>m_last_error = errno\<close>: \<open>cout_errno\<close> is what
  that statement does to the error number, from its value before the statement to
  its value after it (the text printed is not part of the model). \<open>frame0\<close> is the
  uninitialised local.\<close>

definition send ::
  "int \<Rightarrow> int \<Rightarrow> (int \<Rightarrow> int) \<Rightarrow> canfd_frame \<Rightarrow> CanSocket \<Rightarrow> CanIDType \<Rightarrow> uint8 list
     \<Rightarrow> uint8 \<Rightarrow> fault + send_outcome" where
  "send send_res errno cout_errno frame0 this can_id data len =
     (if is_can_initialized this \<and> 0 < len then
        let frame1 = memset_frame (sizeof_SelectedFrame data) frame0;
            frame2 = frame1\<lparr>frame_can_id := can_id\<rparr>;
            frame3 = frame2\<lparr>frame_len := of_nat (min (unat len) (length data))\<rparr>
        in case copy_loop 0 len data (frame_data frame3) of
             Inl e \<Rightarrow> Inl e
           | Inr d \<Rightarrow>
               let frame4 = frame3\<lparr>frame_data := d\<rparr>;
                   socket = get_socket_handle this;
                   call = \<lparr>wr_fd = socket, wr_buf = frame4,
                            wr_count = sizeof_SelectedFrame data\<rparr>;
                   sent = static_cast_sint8 send_res
               in if sent \<le> 0
                  then Inr \<lparr>data_sent = - 1, self = this\<lparr>m_last_error := cout_errno errno\<rparr>,
                            os_write = Some call\<rparr>
                  else Inr \<lparr>data_sent = sent, self = this, os_write = Some call\<rparr>
      else Inr \<lparr>data_sent = - 1, self = this, os_write = None\<rparr>)"

subsection \<open>check_interface\<close>

text \<open>The characters of a character array up to its first \<open>NUL\<close>: the C string it
  holds.\<close>

definition c_str :: "char list \<Rightarrow> string" where
  "c_str a = takeWhile (\<lambda>c. c \<noteq> NUL) a"

text \<open>\<open>std::strncpy(dest, src, n)\<close> on two character arrays: the characters of \<open>src\<close>
  up to its first \<open>NUL\<close>, at most \<open>n\<close> of them, then \<open>NUL\<close>s until \<open>n\<close>
  characters are written. It reads past \<open>src\<close> when \<open>src\<close> ends before a \<open>NUL\<close>
  and before \<open>n\<close> characters, and writes past \<open>dest\<close> when \<open>dest\<close> has fewer than
  \<open>n\<close> characters.\<close>

definition strncpy :: "char list \<Rightarrow> char list \<Rightarrow> nat \<Rightarrow> fault + char list" where
  "strncpy dest src n =
     (let s = c_str (take n src) in
      if length s < n \<and> length s = length src then Inl (ReadOutOfBounds (length src))
      else if length dest < n then Inl (WriteOutOfBounds (length dest))
      else Inr (s @ replicate (n - length s) NUL @ drop n dest))"

text \<open>\<open>check_interface\<close>. \<open>if_nametoindex\<close> is the lookup of the operating system,
  from the C string in \<open>m_ifr.ifr_name\<close> to an \<open>unsigned int\<close>.\<close>

definition check_interface ::
  "(string \<Rightarrow> 32 word) \<Rightarrow> CanSocket \<Rightarrow> char list \<Rightarrow> fault + (bool \<times> CanSocket)" where
  "check_interface if_nametoindex this interface_str =
     (case strncpy (m_ifr_name this) interface_str (IFNAMSIZ - 1) of
        Inl e \<Rightarrow> Inl e
      | Inr name1 \<Rightarrow>
          if length name1 \<le> IFNAMSIZ - 1 then Inl (WriteOutOfBounds (IFNAMSIZ - 1))
          else
            let name2 = name1[IFNAMSIZ - 1 := NUL];
                this1 = this\<lparr>m_ifr_name := name2\<rparr>;
                this2 = this1\<lparr>m_ifr_ifindex := if_nametoindex (c_str name2)\<rparr>;
                found = (m_ifr_ifindex this2 \<noteq> 0)
            in Inr (found, this2))"

subsection \<open>The constructor\<close>

text \<open>The steps of the initialisation, logged as the constructor reaches them. The
  socket is created by the constructor of the base class, which runs first.\<close>

datatype init_step = CreateSocket | CheckInterface | BindIfSocket | EnableCanFD

record ctor_outcome =
  constructed :: CanSocket
  steps :: "init_step list"

text \<open>The constructor. \<open>base\<close> is the object as the constructor of the base class
  \<open>Socket\<close> leaves it; \<open>bind_if_socket\<close> and \<open>enable_canfd\<close> are the two members
  defined in the implementation file, taken as they are: each returns its result
  and the object.\<close>

definition CanSocket_ctor ::
  "(string \<Rightarrow> 32 word) \<Rightarrow> (CanSocket \<Rightarrow> bool \<times> CanSocket) \<Rightarrow> (CanSocket \<Rightarrow> bool \<times> CanSocket)
     \<Rightarrow> CanSocket \<Rightarrow> char list \<Rightarrow> fault + ctor_outcome" where
  "CanSocket_ctor if_nametoindex bind_if_socket enable_canfd base interface_str =
     (let this = base\<lparr>m_can_init := False\<rparr>;
          sock_created = is_socket_initialized this
      in if sock_created then
           case check_interface if_nametoindex this interface_str of
             Inl e \<Rightarrow> Inl e
           | Inr (interface_exists, this1) \<Rightarrow>
               if interface_exists then
                 let (bind_success, this2) = bind_if_socket this1 in
                 if bind_success then
                   let (canfd, this3) = enable_canfd this2 in
                   Inr \<lparr>constructed = this3\<lparr>m_can_init := canfd\<rparr>,
                        steps = [CreateSocket, CheckInterface, BindIfSocket, EnableCanFD]\<rparr>
                 else
                   Inr \<lparr>constructed = this2\<lparr>m_can_init := False\<rparr>,
                        steps = [CreateSocket, CheckInterface, BindIfSocket]\<rparr>
               else
                 Inr \<lparr>constructed = this1\<lparr>m_can_init := False\<rparr>,
                      steps = [CreateSocket, CheckInterface]\<rparr>
         else
           Inr \<lparr>constructed = this\<lparr>m_can_init := False\<rparr>, steps = [CreateSocket]\<rparr>)"

subsection \<open>receive\<close>

text \<open>The header declares the two overloads with their buffer types:
  \<open>receive(CanIDType&, CanFDData&)\<close> and
  \<open>receive(CanIDType&, CanDataType&, const AR::uint16)\<close>.\<close>

definition receive_blocking_capacity :: nat where
  "receive_blocking_capacity = CAN_FD_DATA_LEN"

definition receive_timed_capacity :: nat where
  "receive_timed_capacity = CAN_STD_DATA_LEN"

text \<open>The frame shapes and their envelope sizes.\<close>

datatype frame_shape = Classic | Flexible

fun envelope_size :: "frame_shape \<Rightarrow> nat" where
  "envelope_size Classic = CAN_MTU"
| "envelope_size Flexible = CANFD_MTU"

text \<open>What the operating system answers to a read: a frame of one of the two shapes,
  an error with its error number or, for the wait with a timeout, nothing before the
  timeout elapsed.\<close>

datatype os_read = ReadFrame frame_shape canfd_frame | ReadError int

datatype os_timed_read = TimedFrame frame_shape canfd_frame | TimedOut | TimedError int

text \<open>Decoding the payload into the caller's array: as many bytes of the frame as the
  array holds.\<close>

definition decode_payload :: "canfd_frame \<Rightarrow> uint8 list \<Rightarrow> uint8 list" where
  "decode_payload f data_ref =
     take (length data_ref) (frame_data f) @ drop (length (frame_data f)) data_ref"

text \<open>What a call of \<open>receive\<close> leaves behind: the value returned, the two output
  parameters, the object, and whether the operating system was asked for a frame.\<close>

record receive_outcome =
  data_received :: int
  rx_can_id :: CanIDType
  rx_data :: "uint8 list"
  rx_self :: CanSocket
  rx_os_read :: bool

text \<open>Modelled from the spec: the body of the blocking \<open>receive\<close> is in the
  implementation file. On an endpoint that is not initialised the operation
  short-circuits to the negative sentinel without touching the operating system (the
  failed state is absorbing). Otherwise it reads a buffer of the largest frame shape,
  decodes the identifier and the payload up to the largest capacity, and returns a
  positive count on success and the negative sentinel on an error, with the error
  number recorded.\<close>

definition receive_blocking ::
  "os_read \<Rightarrow> CanSocket \<Rightarrow> CanIDType \<Rightarrow> uint8 list \<Rightarrow> receive_outcome" where
  "receive_blocking ev this can_id data_ref =
     (if is_can_initialized this then
        case ev of
          ReadFrame shape f \<Rightarrow>
            \<lparr>data_received = int (envelope_size shape), rx_can_id = frame_can_id f,
             rx_data = decode_payload f data_ref, rx_self = this, rx_os_read = True\<rparr>
        | ReadError e \<Rightarrow>
            \<lparr>data_received = - 1, rx_can_id = can_id, rx_data = data_ref,
             rx_self = this\<lparr>m_last_error := e\<rparr>, rx_os_read = True\<rparr>
      else
        \<lparr>data_received = - 1, rx_can_id = can_id, rx_data = data_ref, rx_self = this,
         rx_os_read = False\<rparr>)"

text \<open>Modelled from the spec: the body of the time-bounded \<open>receive\<close> is in the
  implementation file. On an endpoint that is not initialised the operation
  short-circuits to the negative sentinel without touching the operating system.
  Otherwise it waits for at most \<open>timeout_us\<close> microseconds and has three outcomes: a
  positive return with the identifier and payload decoded, 0 when no frame arrived
  before the timeout elapsed, and the negative sentinel on an error of the operating
  system, with Last Error updated.\<close>

definition receive_timed ::
  "os_timed_read \<Rightarrow> CanSocket \<Rightarrow> CanIDType \<Rightarrow> uint8 list \<Rightarrow> uint16 \<Rightarrow> receive_outcome" where
  "receive_timed ev this can_id data_ref timeout_us =
     (if is_can_initialized this then
        case ev of
          TimedFrame shape f \<Rightarrow>
            \<lparr>data_received = int (envelope_size shape), rx_can_id = frame_can_id f,
             rx_data = decode_payload f data_ref, rx_self = this, rx_os_read = True\<rparr>
        | TimedOut \<Rightarrow>
            \<lparr>data_received = 0, rx_can_id = can_id, rx_data = data_ref, rx_self = this,
             rx_os_read = True\<rparr>
        | TimedError e \<Rightarrow>
            \<lparr>data_received = - 1, rx_can_id = can_id, rx_data = data_ref,
             rx_self = this\<lparr>m_last_error := e\<rparr>, rx_os_read = True\<rparr>
      else
        \<lparr>data_received = - 1, rx_can_id = can_id, rx_data = data_ref, rx_self = this,
         rx_os_read = False\<rparr>)"

subsection \<open>Example values\<close>

text \<open>An initialised endpoint on \<open>can0\<close>, the same endpoint after a failed
  initialisation, a local \<open>frame\<close> whose bytes are all \<open>0xFF\<close> before
  \<open>memset\<close>, and a payload of each type.\<close>

definition ready_socket :: CanSocket where
  "ready_socket = \<lparr>m_socket_init = True, m_socket = 3, m_last_error = 0,
     m_ifr_name = ''can0'' @ replicate 12 NUL, m_ifr_ifindex = 4, m_can_init = True\<rparr>"

definition failed_socket :: CanSocket where
  "failed_socket = ready_socket\<lparr>m_can_init := False\<rparr>"

definition stale_frame :: canfd_frame where
  "stale_frame = \<lparr>frame_can_id = 0xFFFFFFFF, frame_len = 0xFF, frame_flags = 0xFF,
     frame_res0 = 0xFF, frame_res1 = 0xFF, frame_data = replicate 64 0xFF\<rparr>"

definition payload8 :: "uint8 list" where
  "payload8 = [1, 2, 3, 4, 5, 6, 7, 8]"

definition payload64 :: "uint8 list" where
  "payload64 = map of_nat [1 ..< 65]"

text \<open>An object as the constructor of the base class leaves it, with the members of
  \<open>CanSocket\<close> not yet initialised, and an operating system that knows the one
  interface \<open>can0\<close>, with index 4.\<close>

definition base_socket :: CanSocket where
  "base_socket = \<lparr>m_socket_init = True, m_socket = 3, m_last_error = 0,
     m_ifr_name = replicate 16 (CHR ''?''), m_ifr_ifindex = 0xFFFFFFFF, m_can_init = True\<rparr>"

definition os_if_nametoindex :: "string \<Rightarrow> 32 word" where
  "os_if_nametoindex name = (if name = ''can0'' then 4 else 0)"

text \<open>A flexible frame as it arrives from the bus, and the two arrays a caller passes
  to the \<open>receive\<close> overloads.\<close>

definition flexible_frame :: canfd_frame where
  "flexible_frame = \<lparr>frame_can_id = 0x123, frame_len = 64, frame_flags = 0, frame_res0 = 0,
     frame_res1 = 0, frame_data = payload64\<rparr>"

definition rx_buffer8 :: "uint8 list" where
  "rx_buffer8 = replicate 8 0"

definition rx_buffer64 :: "uint8 list" where
  "rx_buffer64 = replicate 64 0"

section \<open>Properties\<close>

subsection \<open>The copy loop\<close>

text \<open>The loop counter does not wrap: it stays below \<open>len\<close>.\<close>

lemma unat_succ_lt: "i < (len :: uint8) \<Longrightarrow> unat (i + 1) = Suc (unat i)"
proof -
  assume lt: "i < len"
  have "unat i < unat len" using lt by (simp add: word_less_nat_alt)
  moreover have "unat len < 2 ^ LENGTH(8)" by (rule unsigned_less)
  ultimately have "unat i + unat (1 :: 8 word) < 2 ^ LENGTH(8)" by simp
  then show ?thesis by (simp add: unat_add_lem [THEN iffD1])
qed

lemma copy_loop_in_bounds:
  "unat i \<le> unat len \<Longrightarrow> unat len \<le> length data \<Longrightarrow> unat len \<le> length fdata \<Longrightarrow>
   copy_loop i len data fdata =
     Inr (take (unat i) fdata @ drop (unat i) (take (unat len) data) @ drop (unat len) fdata)"
proof (induction i len data fdata rule: copy_loop.induct)
  case (1 i len data fdata)
  show ?case
  proof (cases "i < len")
    case True
    then have lt: "unat i < unat len" by (simp add: word_less_nat_alt)
    have suc: "unat (i + 1) = Suc (unat i)" using True by (rule unat_succ_lt)
    have a: "\<not> length data \<le> unat i" "\<not> length fdata \<le> unat i"
      using lt 1(3,4) by simp_all
    have ih: "copy_loop (i + 1) len data (fdata[unat i := data ! unat i]) =
        Inr (take (unat (i + 1)) (fdata[unat i := data ! unat i])
           @ drop (unat (i + 1)) (take (unat len) data)
           @ drop (unat len) (fdata[unat i := data ! unat i]))"
      using 1(1) [OF True a] lt suc 1(3,4) by simp
    have t1: "take (Suc (unat i)) (fdata[unat i := data ! unat i]) = take (unat i) fdata @ [data ! unat i]"
      using a by (simp add: take_Suc_conv_app_nth)
    have t2: "drop (unat i) (take (unat len) data) = data ! unat i # drop (Suc (unat i)) (take (unat len) data)"
      using lt a by (simp add: Cons_nth_drop_Suc [symmetric])
    have t3: "drop (unat len) (fdata[unat i := data ! unat i]) = drop (unat len) fdata"
      using lt by simp
    show ?thesis
      using True a ih suc t1 t2 t3 by (simp add: copy_loop.simps [of i len data fdata])
  next
    case False
    with 1(2) have "unat i = unat len" by (simp add: word_less_nat_alt)
    with False 1(3,4) show ?thesis by (simp add: copy_loop.simps [of i len data fdata])
  qed
qed

lemma copy_loop_read_fault:
  "unat i \<le> length data \<Longrightarrow> length data < unat len \<Longrightarrow> length data \<le> length fdata \<Longrightarrow>
   copy_loop i len data fdata = Inl (ReadOutOfBounds (length data))"
proof (induction i len data fdata rule: copy_loop.induct)
  case (1 i len data fdata)
  have lt: "i < len" using 1(2,3) by (simp add: word_less_nat_alt)
  have suc: "unat (i + 1) = Suc (unat i)" using lt by (rule unat_succ_lt)
  show ?case
  proof (cases "unat i = length data")
    case True
    then show ?thesis using lt by (simp add: copy_loop.simps [of i len data fdata])
  next
    case False
    then have a: "\<not> length data \<le> unat i" "\<not> length fdata \<le> unat i" using 1(2,4) by simp_all
    have "copy_loop (i + 1) len data (fdata[unat i := data ! unat i]) = Inl (ReadOutOfBounds (length data))"
      using 1(1) [OF lt a] a suc 1(3,4) by simp
    then show ?thesis using lt a by (simp add: copy_loop.simps [of i len data fdata])
  qed
qed

lemma copy_loop_from_start:
  "unat len \<le> length data \<Longrightarrow> unat len \<le> length fdata \<Longrightarrow>
   copy_loop 0 len data fdata = Inr (take (unat len) data @ drop (unat len) fdata)"
  using copy_loop_in_bounds [of 0 len data fdata] by simp

lemma copy_loop_write_fault:
  "unat i \<le> length fdata \<Longrightarrow> length fdata < unat len \<Longrightarrow> length fdata < length data \<Longrightarrow>
   copy_loop i len data fdata = Inl (WriteOutOfBounds (length fdata))"
proof (induction i len data fdata rule: copy_loop.induct)
  case (1 i len data fdata)
  have lt: "i < len" using 1(2,3) by (simp add: word_less_nat_alt)
  have suc: "unat (i + 1) = Suc (unat i)" using lt by (rule unat_succ_lt)
  show ?case
  proof (cases "unat i = length fdata")
    case True
    then show ?thesis using lt 1(4) by (simp add: copy_loop.simps [of i len data fdata])
  next
    case False
    then have a: "\<not> length data \<le> unat i" "\<not> length fdata \<le> unat i" using 1(2,4) by simp_all
    have "copy_loop (i + 1) len data (fdata[unat i := data ! unat i]) =
        Inl (WriteOutOfBounds (length (fdata[unat i := data ! unat i])))"
      using 1(1) [OF lt a] a suc 1(3,4) by simp
    then show ?thesis using lt a by (simp add: copy_loop.simps [of i len data fdata])
  qed
qed

text \<open>The loop returns exactly when the length is within both arrays.\<close>

lemma copy_loop_returns_iff:
  "(\<exists>d. copy_loop 0 len data fdata = Inr d) \<longleftrightarrow> unat len \<le> length data \<and> unat len \<le> length fdata"
proof (cases "unat len \<le> length data \<and> unat len \<le> length fdata")
  case True
  then show ?thesis using copy_loop_from_start [of len data fdata] by simp
next
  case False
  show ?thesis
  proof (cases "length data \<le> length fdata")
    case True
    with False have "length data < unat len" by auto
    then show ?thesis using copy_loop_read_fault [of 0 data len fdata] True False by simp
  next
    case False
    then have lt: "length fdata < length data" by simp
    show ?thesis
    proof (cases "length fdata < unat len")
      case True
      then show ?thesis using copy_loop_write_fault [of 0 fdata len data] lt by simp
    next
      case f: False
      then show ?thesis using \<open>\<not> (unat len \<le> length data \<and> unat len \<le> length fdata)\<close> lt by simp
    qed
  qed
qed

lemma length_memset_frame: "length (frame_data (memset_frame n f)) = length (frame_data f)"
  by (simp add: memset_frame_def)


subsection \<open>Calls that pass the guard\<close>

text \<open>The cast to \<open>sint8\<close> keeps every value that \<open>write\<close> can return for a count
  of at most 72 bytes.\<close>

lemma static_cast_sint8_id:
  "- 128 \<le> r \<Longrightarrow> r < 128 \<Longrightarrow> static_cast_sint8 r = r"
  by (simp add: static_cast_sint8_def sint_sbintrunc' signed_take_bit_int_eq_self)

lemma sizeof_SelectedFrame_le: "sizeof_SelectedFrame data \<le> 72"
  by (simp add: sizeof_SelectedFrame_def CAN_MTU_def CANFD_MTU_def)

text \<open>For the two payload types that the \<open>static_assert\<close> admits, the selected
  structure is \<open>can_frame\<close> for the array of 8 bytes and \<open>canfd_frame\<close> for the
  array of 64 bytes.\<close>

lemma sizeof_SelectedFrame_cases:
  "static_assert_CANFrame data \<Longrightarrow>
   length data = 8 \<and> sizeof_SelectedFrame data = 16 \<or>
   length data = 64 \<and> sizeof_SelectedFrame data = 72"
  by (auto simp: static_assert_CANFrame_def sizeof_SelectedFrame_def CAN_STD_DATA_LEN_def
      CAN_FD_DATA_LEN_def CAN_MTU_def CANFD_MTU_def)

text \<open>What \<open>send\<close> does with a call that passes its guard: it hands the frame to
  \<open>write\<close> when the length is within both arrays, and reads or writes out of
  bounds otherwise.\<close>

lemma send_accepted:
  assumes "is_can_initialized this" and "0 < len"
    and "unat len \<le> length data" and "unat len \<le> length (frame_data frame0)"
  shows "send send_res errno cout_errno frame0 this can_id data len =
     Inr \<lparr>data_sent = (if static_cast_sint8 send_res \<le> 0 then - 1 else static_cast_sint8 send_res),
          self = (if static_cast_sint8 send_res \<le> 0 then this\<lparr>m_last_error := cout_errno errno\<rparr> else this),
          os_write = Some \<lparr>wr_fd = get_socket_handle this,
            wr_buf = (memset_frame (sizeof_SelectedFrame data) frame0)
               \<lparr>frame_can_id := can_id, frame_len := len,
                frame_data := take (unat len) data
                  @ drop (unat len) (frame_data (memset_frame (sizeof_SelectedFrame data) frame0))\<rparr>,
            wr_count = sizeof_SelectedFrame data\<rparr>\<rparr>"
proof -
  have "min (unat len) (length data) = unat len"
    using assms(3) by simp
  moreover have "copy_loop 0 len data (frame_data (memset_frame (sizeof_SelectedFrame data) frame0)) =
      Inr (take (unat len) data
         @ drop (unat len) (frame_data (memset_frame (sizeof_SelectedFrame data) frame0)))"
    using assms(3,4) by (simp add: copy_loop_from_start length_memset_frame)
  ultimately show ?thesis
    using assms(1,2) by (simp add: send_def Let_def)
qed

lemma send_faults:
  assumes "is_can_initialized this" and "0 < len"
    and "\<not> (unat len \<le> length data \<and> unat len \<le> length (frame_data frame0))"
  shows "\<exists>e. send send_res errno cout_errno frame0 this can_id data len = Inl e"
proof -
  have "\<not> (\<exists>d. copy_loop 0 len data (frame_data (memset_frame (sizeof_SelectedFrame data) frame0)) = Inr d)"
    using assms(3) by (simp add: copy_loop_returns_iff length_memset_frame)
  then obtain e where "copy_loop 0 len data (frame_data (memset_frame (sizeof_SelectedFrame data) frame0)) = Inl e"
    by (metis sum.exhaust)
  then show ?thesis
    using assms(1,2) by (simp add: send_def Let_def)
qed

lemma send_write_D:
  assumes "send send_res errno cout_errno frame0 this can_id data len = Inr out"
    and "os_write out = Some c"
  shows "is_can_initialized this \<and> 0 < len \<and> unat len \<le> length data
     \<and> unat len \<le> length (frame_data frame0)"
proof -
  have g: "is_can_initialized this \<and> 0 < len"
  proof (rule ccontr)
    assume "\<not> (is_can_initialized this \<and> 0 < len)"
    then have "send send_res errno cout_errno frame0 this can_id data len =
        Inr \<lparr>data_sent = - 1, self = this, os_write = None\<rparr>"
      by (auto simp: send_def)
    with assms show False by auto
  qed
  moreover have "unat len \<le> length data \<and> unat len \<le> length (frame_data frame0)"
  proof (rule ccontr)
    assume "\<not> (unat len \<le> length data \<and> unat len \<le> length (frame_data frame0))"
    then obtain e where "send send_res errno cout_errno frame0 this can_id data len = Inl e"
      using send_faults g by blast
    with assms(1) show False by simp
  qed
  ultimately show ?thesis by simp
qed

subsection \<open>Rejected calls\<close>

text \<open>C3: a call of \<open>send\<close> on an object that is not initialised, or with the length
  0 whatever the state of the object, returns -1, makes no call of \<open>write\<close> and
  leaves the object as it was.\<close>

theorem send_rejected:
  "\<not> is_can_initialized this \<or> len = 0 \<Longrightarrow>
   send send_res errno cout_errno frame0 this can_id data len =
     Inr \<lparr>data_sent = - 1, self = this, os_write = None\<rparr>"
  by (auto simp: send_def)

theorem send_rejected_witness:
  "\<not> is_can_initialized failed_socket \<and>
   send 16 0 (\<lambda>e. e) stale_frame failed_socket 0x123 payload8 8 =
     Inr \<lparr>data_sent = - 1, self = failed_socket, os_write = None\<rparr> \<and>
   is_can_initialized ready_socket \<and>
   send 16 0 (\<lambda>e. e) stale_frame ready_socket 0x123 payload8 0 =
     Inr \<lparr>data_sent = - 1, self = ready_socket, os_write = None\<rparr>"
  using send_rejected [of failed_socket 8 16 0 "\<lambda>e. e" stale_frame "0x123" payload8]
    send_rejected [of ready_socket 0 16 0 "\<lambda>e. e" stale_frame "0x123" payload8]
  by (simp add: is_can_initialized_def failed_socket_def ready_socket_def)

subsection \<open>Last Error\<close>

text \<open>What \<open>send\<close> stores, for every result that \<open>write\<close> can report for the count
  it is given (-1, or a number of bytes of at most the count). When \<open>write\<close> returns
  a result less than or equal to zero, \<open>send\<close> returns -1 and Last Error becomes the
  error number as the output statement leaves it, which is the error number of
  \<open>write\<close> only when the output statement does not change it; when \<open>write\<close>
  returns a positive count, and when the call is rejected before \<open>write\<close>, Last Error
  is left as it was.\<close>

lemma send_last_error_stored:
  assumes "send send_res errno cout_errno frame0 this can_id data len = Inr out"
    and "- 1 \<le> send_res" and "send_res \<le> int (sizeof_SelectedFrame data)"
  shows "(os_write out \<noteq> None \<and> send_res \<le> 0 \<longrightarrow>
           data_sent out = - 1 \<and> m_last_error (self out) = cout_errno errno) \<and>
         (os_write out \<noteq> None \<and> send_res \<le> 0 \<and> cout_errno errno = errno \<longrightarrow>
           m_last_error (self out) = errno) \<and>
         (os_write out \<noteq> None \<and> 0 < send_res \<longrightarrow>
           m_last_error (self out) = m_last_error this) \<and>
         (os_write out = None \<longrightarrow> m_last_error (self out) = m_last_error this)"
proof (cases "os_write out")
  case None
  have "self out = this"
  proof (cases "is_can_initialized this \<and> 0 < len")
    case True
    show ?thesis
    proof (cases "unat len \<le> length data \<and> unat len \<le> length (frame_data frame0)")
      case t: True
      with True assms(1) None show ?thesis
        using send_accepted [of this len data frame0 send_res errno cout_errno can_id] by auto
    next
      case False
      with True assms(1) show ?thesis
        using send_faults [of this len data frame0 send_res errno cout_errno can_id] by auto
    qed
  next
    case False
    then have "send send_res errno cout_errno frame0 this can_id data len =
        Inr \<lparr>data_sent = - 1, self = this, os_write = None\<rparr>"
      by (auto simp: send_def)
    with assms(1) show ?thesis by auto
  qed
  with None show ?thesis by simp
next
  case (Some c)
  have g: "is_can_initialized this" "0 < len" "unat len \<le> length data"
    "unat len \<le> length (frame_data frame0)"
    using send_write_D [OF assms(1) Some] by simp_all
  have "send_res \<le> 72"
    using assms(3) sizeof_SelectedFrame_le [of data] by simp
  then have cast: "static_cast_sint8 send_res = send_res"
    using assms(2) by (simp add: static_cast_sint8_id)
  show ?thesis
    using assms(1) send_accepted [OF g, of send_res errno cout_errno can_id] cast by auto
qed

text \<open>C4: the claim that a failed \<open>write\<close> leaves its error code in Last Error does not
  hold of the code. The store \<open>m_last_error = errno\<close> comes after the output
  statement, so that Last Error is the error number as the output leaves it. On the
  initialised endpoint, with a \<open>write\<close> that fails with the error number 28 and an
  output that fails in its turn and leaves the error number 9, \<open>send\<close> returns -1 and
  Last Error is 9, not 28.\<close>

theorem send_last_error_after_output:
  "send (- 1) 28 (\<lambda>e. 9) stale_frame ready_socket 0x123 payload8 8 =
     Inr \<lparr>data_sent = - 1, self = ready_socket\<lparr>m_last_error := 9\<rparr>,
          os_write = Some \<lparr>wr_fd = 3,
            wr_buf = \<lparr>frame_can_id = 0x123, frame_len = 8, frame_flags = 0, frame_res0 = 0,
                      frame_res1 = 0, frame_data = payload8 @ replicate 56 0xFF\<rparr>,
            wr_count = 16\<rparr>\<rparr>"
  by (simp add: send_def is_can_initialized_def ready_socket_def stale_frame_def payload8_def
      sizeof_SelectedFrame_def memset_frame_def CAN_STD_DATA_LEN_def CAN_MTU_def
      CAN_DATA_OFFSET_def get_socket_handle_def static_cast_sint8_def copy_loop_from_start)

subsection \<open>Evaluated calls\<close>

text \<open>The example values, and two calls of \<open>send\<close> on the initialised endpoint: three
  bytes of a classic payload, and all 64 bytes of a flexible one.\<close>

lemma sizeof_payload8: "sizeof_SelectedFrame payload8 = 16"
  by (simp add: sizeof_SelectedFrame_def payload8_def CAN_STD_DATA_LEN_def CAN_MTU_def)

lemma length_payload64: "length payload64 = 64"
  by (simp add: payload64_def)

lemma sizeof_payload64: "sizeof_SelectedFrame payload64 = 72"
  by (simp add: sizeof_SelectedFrame_def length_payload64 CAN_STD_DATA_LEN_def CANFD_MTU_def)

lemma memset_stale_classic:
  "memset_frame 16 stale_frame =
     \<lparr>frame_can_id = 0, frame_len = 0, frame_flags = 0, frame_res0 = 0, frame_res1 = 0,
      frame_data = replicate 8 0 @ replicate 56 0xFF\<rparr>"
  by (simp add: memset_frame_def stale_frame_def CAN_DATA_OFFSET_def)

lemma memset_stale_flexible:
  "memset_frame 72 stale_frame =
     \<lparr>frame_can_id = 0, frame_len = 0, frame_flags = 0, frame_res0 = 0, frame_res1 = 0,
      frame_data = replicate 64 0\<rparr>"
  by (simp add: memset_frame_def stale_frame_def CAN_DATA_OFFSET_def)

lemma ready_socket_initialized: "is_can_initialized ready_socket"
  by (simp add: is_can_initialized_def ready_socket_def)

lemma send_classic_3:
  "send 16 0 (\<lambda>e. e) stale_frame ready_socket 0x123 payload8 3 =
     Inr \<lparr>data_sent = 16, self = ready_socket,
          os_write = Some \<lparr>wr_fd = 3,
            wr_buf = \<lparr>frame_can_id = 0x123, frame_len = 3, frame_flags = 0, frame_res0 = 0,
                      frame_res1 = 0, frame_data = [1, 2, 3] @ replicate 5 0 @ replicate 56 0xFF\<rparr>,
            wr_count = 16\<rparr>\<rparr>"
proof -
  have "send 16 0 (\<lambda>e. e) stale_frame ready_socket 0x123 payload8 3 = 
     Inr \<lparr>data_sent = (if static_cast_sint8 16 \<le> 0 then - 1 else static_cast_sint8 16),
          self = (if static_cast_sint8 16 \<le> 0 then ready_socket\<lparr>m_last_error := 0\<rparr> else ready_socket),
          os_write = Some \<lparr>wr_fd = get_socket_handle ready_socket,
            wr_buf = (memset_frame (sizeof_SelectedFrame payload8) stale_frame)
               \<lparr>frame_can_id := 0x123, frame_len := 3,
                frame_data := take (unat (3 :: uint8)) payload8
                  @ drop (unat (3 :: uint8)) (frame_data (memset_frame (sizeof_SelectedFrame payload8) stale_frame))\<rparr>,
            wr_count = sizeof_SelectedFrame payload8\<rparr>\<rparr>"
    by (rule send_accepted) (simp_all add: ready_socket_initialized payload8_def stale_frame_def)
  then show ?thesis
    unfolding sizeof_payload8 memset_stale_classic
    by (simp add: static_cast_sint8_id get_socket_handle_def ready_socket_def payload8_def)
qed

lemma send_flexible_64:
  "send 72 0 (\<lambda>e. e) stale_frame ready_socket 0x123 payload64 64 =
     Inr \<lparr>data_sent = 72, self = ready_socket,
          os_write = Some \<lparr>wr_fd = 3,
            wr_buf = \<lparr>frame_can_id = 0x123, frame_len = 64, frame_flags = 0, frame_res0 = 0,
                      frame_res1 = 0, frame_data = payload64\<rparr>,
            wr_count = 72\<rparr>\<rparr>"
proof -
  have "send 72 0 (\<lambda>e. e) stale_frame ready_socket 0x123 payload64 64 = 
     Inr \<lparr>data_sent = (if static_cast_sint8 72 \<le> 0 then - 1 else static_cast_sint8 72),
          self = (if static_cast_sint8 72 \<le> 0 then ready_socket\<lparr>m_last_error := 0\<rparr> else ready_socket),
          os_write = Some \<lparr>wr_fd = get_socket_handle ready_socket,
            wr_buf = (memset_frame (sizeof_SelectedFrame payload64) stale_frame)
               \<lparr>frame_can_id := 0x123, frame_len := 64,
                frame_data := take (unat (64 :: uint8)) payload64
                  @ drop (unat (64 :: uint8)) (frame_data (memset_frame (sizeof_SelectedFrame payload64) stale_frame))\<rparr>,
            wr_count = sizeof_SelectedFrame payload64\<rparr>\<rparr>"
    by (rule send_accepted) (simp_all add: ready_socket_initialized length_payload64 stale_frame_def)
  then show ?thesis
    unfolding sizeof_payload64 memset_stale_flexible
    by (simp add: static_cast_sint8_id get_socket_handle_def ready_socket_def length_payload64)
qed

text \<open>A length beyond the payload array makes the loop read the array out of bounds, at
  the index that is the array's size.\<close>

lemma send_beyond_capacity:
  assumes "is_can_initialized this" and "length data < unat len"
    and "length data \<le> length (frame_data frame0)"
  shows "send send_res errno cout_errno frame0 this can_id data len = Inl (ReadOutOfBounds (length data))"
proof -
  have "0 < unat len"
    using assms(2) by simp
  then have "0 < len"
    by (simp add: word_less_nat_alt)
  moreover have "copy_loop 0 len data
      (frame_data (memset_frame (sizeof_SelectedFrame data) frame0)) =
        Inl (ReadOutOfBounds (length data))"
    using assms(2,3) by (simp add: copy_loop_read_fault length_memset_frame)
  ultimately show ?thesis
    using assms(1) by (simp add: send_def Let_def)
qed

subsection \<open>The envelope\<close>

text \<open>C5: when a call of \<open>send\<close> reaches \<open>write\<close>, the count passed to \<open>write\<close> is
  the size of the selected frame structure, whatever the requested length: 16 for a
  classic payload array of 8 bytes and 72 for a flexible one of 64 bytes. When
  \<open>write\<close> reports a positive number of bytes, at most that count, \<open>send\<close> returns
  that number.\<close>

theorem send_envelope_size:
  assumes "send send_res errno cout_errno frame0 this can_id data len = Inr out"
    and "os_write out = Some c"
  shows "wr_count c = sizeof_SelectedFrame data \<and>
         (length data = CAN_STD_DATA_LEN \<longrightarrow> wr_count c = 16) \<and>
         (length data = CAN_FD_DATA_LEN \<longrightarrow> wr_count c = 72) \<and>
         (0 < send_res \<and> send_res \<le> int (wr_count c) \<longrightarrow> data_sent out = send_res)"
proof -
  have g: "is_can_initialized this" "0 < len" "unat len \<le> length data"
    "unat len \<le> length (frame_data frame0)"
    using send_write_D [OF assms] by simp_all
  have cnt: "wr_count c = sizeof_SelectedFrame data"
    using assms send_accepted [OF g, of send_res errno cout_errno can_id] by auto
  have ret: "data_sent out = send_res" if "0 < send_res" "send_res \<le> int (wr_count c)"
  proof -
    have "send_res \<le> 72"
      using that(2) cnt sizeof_SelectedFrame_le [of data] by simp
    then have "static_cast_sint8 send_res = send_res"
      using that(1) by (simp add: static_cast_sint8_id)
    then show ?thesis
      using assms(1) that(1) send_accepted [OF g, of send_res errno cout_errno can_id] by auto
  qed
  show ?thesis
    using cnt ret
    by (simp add: sizeof_SelectedFrame_def CAN_STD_DATA_LEN_def CAN_FD_DATA_LEN_def CAN_MTU_def
        CANFD_MTU_def)
qed

theorem send_envelope_size_witness:
  "length payload8 = CAN_STD_DATA_LEN \<and> length payload64 = CAN_FD_DATA_LEN \<and>
   send 16 0 (\<lambda>e. e) stale_frame ready_socket 0x123 payload8 3 =
     Inr \<lparr>data_sent = 16, self = ready_socket,
          os_write = Some \<lparr>wr_fd = 3,
            wr_buf = \<lparr>frame_can_id = 0x123, frame_len = 3, frame_flags = 0, frame_res0 = 0,
                      frame_res1 = 0, frame_data = [1, 2, 3] @ replicate 5 0 @ replicate 56 0xFF\<rparr>,
            wr_count = 16\<rparr>\<rparr> \<and>
   send 72 0 (\<lambda>e. e) stale_frame ready_socket 0x123 payload64 64 =
     Inr \<lparr>data_sent = 72, self = ready_socket,
          os_write = Some \<lparr>wr_fd = 3,
            wr_buf = \<lparr>frame_can_id = 0x123, frame_len = 64, frame_flags = 0, frame_res0 = 0,
                      frame_res1 = 0, frame_data = payload64\<rparr>,
            wr_count = 72\<rparr>\<rparr>"
  using send_envelope_size [OF send_classic_3] send_envelope_size [OF send_flexible_64]
    send_classic_3 send_flexible_64
  by (simp add: length_payload64 CAN_FD_DATA_LEN_def CAN_STD_DATA_LEN_def payload8_def)

text \<open>C2, as amended: when a call of \<open>send\<close> reaches \<open>write\<close>, \<open>memset\<close> has zeroed
  the buffer over the size of the selected frame structure (16 bytes for a classic
  payload, 72 for a flexible one), which is the extent handed to \<open>write\<close>, before
  the identifier, the length and the payload are stored. In the envelope handed to
  \<open>write\<close> the identifier and the length are those of the call, the flags and
  reserved bytes are zero, and the data bytes are the first \<open>len\<close> bytes of the
  payload followed by zeros.\<close>

theorem send_envelope_zero_filled:
  assumes "wf_frame frame0"
    and "send send_res errno cout_errno frame0 this can_id data len = Inr out"
    and "os_write out = Some c"
  shows "frame_can_id (memset_frame (sizeof_SelectedFrame data) frame0) = 0 \<and>
         frame_len (memset_frame (sizeof_SelectedFrame data) frame0) = 0 \<and>
         frame_flags (memset_frame (sizeof_SelectedFrame data) frame0) = 0 \<and>
         frame_res0 (memset_frame (sizeof_SelectedFrame data) frame0) = 0 \<and>
         frame_res1 (memset_frame (sizeof_SelectedFrame data) frame0) = 0 \<and>
         take (sizeof_SelectedFrame data - CAN_DATA_OFFSET)
              (frame_data (memset_frame (sizeof_SelectedFrame data) frame0)) =
           replicate (sizeof_SelectedFrame data - CAN_DATA_OFFSET) 0 \<and>
         wr_count c = sizeof_SelectedFrame data \<and>
         frame_can_id (wr_buf c) = can_id \<and>
         frame_len (wr_buf c) = len \<and>
         frame_flags (wr_buf c) = 0 \<and>
         frame_res0 (wr_buf c) = 0 \<and>
         frame_res1 (wr_buf c) = 0 \<and>
         take (wr_count c - CAN_DATA_OFFSET) (frame_data (wr_buf c)) =
           take (unat len) data @ replicate (wr_count c - CAN_DATA_OFFSET - unat len) 0"
proof -
  let ?n = "sizeof_SelectedFrame data"
  let ?m = "memset_frame ?n frame0"
  have len0: "length (frame_data frame0) = 64"
    using assms(1) by (simp add: wf_frame_def CANFD_MAX_DLEN_def)
  have g: "is_can_initialized this" "0 < len" "unat len \<le> length data"
    "unat len \<le> length (frame_data frame0)"
    using send_write_D [OF assms(2,3)] by simp_all
  have n: "?n = 16 \<and> length data = 8 \<or> ?n = 72"
    by (simp add: sizeof_SelectedFrame_def CAN_MTU_def CANFD_MTU_def CAN_STD_DATA_LEN_def)
  then have k: "8 \<le> ?n" "?n - 8 \<le> 64" "unat len \<le> ?n - 8"
    using g(3,4) len0 by auto
  have md: "frame_data ?m = replicate (?n - 8) 0 @ drop (?n - 8) (frame_data frame0)"
    using k(2) len0 by (simp add: memset_frame_def CAN_DATA_OFFSET_def min_def)
  have hdr: "frame_can_id ?m = 0" "frame_len ?m = 0" "frame_flags ?m = 0"
    "frame_res0 ?m = 0" "frame_res1 ?m = 0"
    using k(1) by (simp_all add: memset_frame_def)
  have c: "c = \<lparr>wr_fd = get_socket_handle this,
      wr_buf = ?m\<lparr>frame_can_id := can_id, frame_len := len,
        frame_data := take (unat len) data @ drop (unat len) (frame_data ?m)\<rparr>,
      wr_count = ?n\<rparr>"
    using assms(2,3) send_accepted [OF g, of send_res errno cout_errno can_id] by auto
  have tl: "take (?n - 8) (take (unat len) data @ drop (unat len) (frame_data ?m)) =
      take (unat len) data @ replicate (?n - 8 - unat len) 0"
    using k(3) g(3) by (simp add: md min_def)
  show ?thesis
    using hdr c tl md by (simp add: CAN_DATA_OFFSET_def)
qed

theorem send_envelope_zero_filled_witness:
  "wf_frame stale_frame \<and>
   send 16 0 (\<lambda>e. e) stale_frame ready_socket 0x123 payload8 3 =
     Inr \<lparr>data_sent = 16, self = ready_socket,
          os_write = Some \<lparr>wr_fd = 3,
            wr_buf = \<lparr>frame_can_id = 0x123, frame_len = 3, frame_flags = 0, frame_res0 = 0,
                      frame_res1 = 0, frame_data = [1, 2, 3] @ replicate 5 0 @ replicate 56 0xFF\<rparr>,
            wr_count = 16\<rparr>\<rparr> \<and>
   take (16 - CAN_DATA_OFFSET) ([1, 2, 3] @ replicate 5 0 @ replicate 56 (0xFF :: uint8)) =
     take (unat (3 :: uint8)) payload8 @ replicate (16 - CAN_DATA_OFFSET - unat (3 :: uint8)) 0"
proof -
  have wf: "wf_frame stale_frame"
    by (simp add: wf_frame_def stale_frame_def CANFD_MAX_DLEN_def)
  show ?thesis
    using wf send_classic_3 send_envelope_zero_filled [OF wf send_classic_3]
    by simp
qed

text \<open>C2, as stated, fails: for a classic payload \<open>memset\<close> clears 16 of the 72 bytes
  of the buffer. With a local \<open>frame\<close> that holds \<open>0xFF\<close> in every byte, the data
  bytes from index 8 on still hold \<open>0xFF\<close> after \<open>memset\<close> and when the buffer is
  handed to \<open>write\<close>; they lie beyond the 16 bytes that \<open>write\<close> is given.\<close>

theorem send_buffer_tail_not_cleared:
  "frame_data (memset_frame (sizeof_SelectedFrame payload8) stale_frame) =
     replicate 8 0 @ replicate 56 0xFF \<and>
   send 16 0 (\<lambda>e. e) stale_frame ready_socket 0x123 payload8 3 =
     Inr \<lparr>data_sent = 16, self = ready_socket,
          os_write = Some \<lparr>wr_fd = 3,
            wr_buf = \<lparr>frame_can_id = 0x123, frame_len = 3, frame_flags = 0, frame_res0 = 0,
                      frame_res1 = 0, frame_data = [1, 2, 3] @ replicate 5 0 @ replicate 56 0xFF\<rparr>,
            wr_count = 16\<rparr>\<rparr> \<and>
   ([1, 2, 3] @ replicate 5 0 @ replicate 56 (0xFF :: uint8)) ! 8 = 0xFF"
  using send_classic_3 by (simp add: sizeof_payload8 memset_stale_classic nth_append)

subsection \<open>Lengths beyond the capacity\<close>

text \<open>C1: the claim that a call with a length beyond the capacity hands a frame with
  exactly the first capacity bytes to \<open>write\<close> does not hold of the code. The length
  member is clamped, but the copy loop runs to \<open>len\<close>: with a classic payload and
  the length 9 it reads \<open>data[8]\<close>, outside the array of 8 bytes, and no frame is
  handed over by defined behaviour.\<close>

theorem send_length_beyond_capacity:
  "send 16 0 (\<lambda>e. e) stale_frame ready_socket 0x123 payload8 9 = Inl (ReadOutOfBounds 8)"
  using send_beyond_capacity [of ready_socket payload8 9 stale_frame 16 0 "\<lambda>e. e" "0x123"]
  by (simp add: ready_socket_initialized payload8_def stale_frame_def)

text \<open>C10: the claim that every index of the copy loop is within the bounds of both
  arrays does not hold of the code. From the start of the loop, with a classic payload
  and the length 9 the index 8 is outside the payload array, and with a flexible
  payload and the length 255 the index 64 is.\<close>

theorem copy_loop_index_out_of_bounds:
  "copy_loop 0 9 payload8
     (frame_data (memset_frame (sizeof_SelectedFrame payload8) stale_frame)) =
     Inl (ReadOutOfBounds 8) \<and>
   copy_loop 0 255 payload64
     (frame_data (memset_frame (sizeof_SelectedFrame payload64) stale_frame)) =
     Inl (ReadOutOfBounds 64)"
proof -
  have "copy_loop 0 9 payload8 (replicate 8 0 @ replicate 56 0xFF) =
      Inl (ReadOutOfBounds (length payload8))"
    by (rule copy_loop_read_fault) (simp_all add: payload8_def)
  moreover have "copy_loop 0 255 payload64 (replicate 64 0) =
      Inl (ReadOutOfBounds (length payload64))"
    by (rule copy_loop_read_fault) (simp_all add: length_payload64)
  moreover have "length payload8 = 8"
    by (simp add: payload8_def)
  ultimately show ?thesis
    by (simp add: sizeof_payload8 sizeof_payload64 memset_stale_classic memset_stale_flexible
        length_payload64)
qed

subsection \<open>Resolving the interface\<close>

text \<open>\<open>strncpy\<close> on a source that holds a C string, and the termination of the
  copied name.\<close>

lemma c_str_take: "c_str (take n a) = take n (c_str a)"
  unfolding c_str_def
proof (induction a arbitrary: n)
  case Nil
  show ?case by simp
next
  case (Cons x a)
  show ?case
    by (cases n) (simp_all add: Cons.IH)
qed

lemma length_c_str_less: "NUL \<in> set a \<Longrightarrow> length (c_str a) < length a"
  unfolding c_str_def
  by (induction a) auto

lemma c_str_no_NUL: "NUL \<notin> set (c_str a)"
  unfolding c_str_def
  by (induction a) auto

lemma c_str_append_NUL: "NUL \<notin> set s \<Longrightarrow> c_str (s @ NUL # t) = s"
  unfolding c_str_def
  by (induction s) auto

lemma strncpy_c_string:
  assumes "n \<le> length dest" and "NUL \<in> set src"
  shows "strncpy dest src n =
     Inr (take n (c_str src) @ replicate (n - length (c_str src)) NUL @ drop n dest)"
proof -
  have "length (c_str src) < length src"
    using assms(2) by (rule length_c_str_less)
  then have "\<not> (length (take n (c_str src)) < n \<and> length (take n (c_str src)) = length src)"
    by auto
  then show ?thesis
    using assms(1) by (simp add: strncpy_def c_str_take Let_def min_def)
qed

lemma terminated_name:
  assumes "length dest = Suc n"
  shows "(take n s @ replicate (n - length s) NUL @ drop n dest)[n := NUL] =
     take n s @ replicate (n - length s) NUL @ [NUL]"
proof -
  let ?a = "take n s @ replicate (n - length s) NUL"
  have la: "length ?a = n"
    by auto
  have "drop n dest = dest ! n # drop (Suc n) dest"
    using assms by (intro Cons_nth_drop_Suc [symmetric]) simp
  then have d: "drop n dest = [dest ! n]"
    using assms by simp
  have "\<And>a :: char list. length a = n \<Longrightarrow> (a @ [dest ! n])[n := NUL] = a @ [NUL]"
    by auto
  then have "(?a @ [dest ! n])[n := NUL] = ?a @ [NUL]"
    using la by blast
  then show ?thesis
    using d by simp
qed

text \<open>The lookup of \<open>can0\<close> and of a name of 21 characters, evaluated.\<close>

lemma check_interface_can0:
  "check_interface os_if_nametoindex base_socket (''can0'' @ [NUL]) =
     Inr (True, base_socket\<lparr>m_ifr_name := ''can0'' @ replicate 12 NUL, m_ifr_ifindex := 4\<rparr>)"
  by code_simp

lemma check_interface_long_name:
  "check_interface os_if_nametoindex base_socket (''can0_with_a_long_name'' @ [NUL]) =
     Inr (False, base_socket\<lparr>m_ifr_name := ''can0_with_a_lon'' @ [NUL], m_ifr_ifindex := 0\<rparr>)"
  by code_simp

text \<open>The name that \<open>check_interface\<close> stores for a C string: its first \<open>IFNAMSIZ - 1\<close>
  characters, \<open>NUL\<close>s up to 15 characters, and the terminating \<open>NUL\<close>.\<close>

lemma stored_name_length:
  "length (take 15 s @ replicate (15 - length s) NUL @ [NUL]) = 16"
  by auto

lemma stored_name_terminated:
  "(take 15 s @ replicate (15 - length s) NUL @ [NUL]) ! 15 = NUL"
proof -
  have "length (take 15 s @ replicate (15 - length s) NUL) = 15"
    by auto
  then have "((take 15 s @ replicate (15 - length s) NUL) @ [NUL]) ! 15 = NUL"
    by (metis nth_append_length)
  then show ?thesis
    by simp
qed

lemma stored_name_c_str:
  "c_str (take 15 (c_str a) @ replicate (15 - length (c_str a)) NUL @ [NUL]) = take 15 (c_str a)"
proof -
  let ?s = "c_str a"
  have "NUL \<notin> set (take 15 ?s)"
    using c_str_no_NUL [of a] by (auto dest: in_set_takeD)
  then have "c_str (take 15 ?s @ NUL # replicate (15 - length ?s) NUL) = take 15 ?s"
    by (rule c_str_append_NUL)
  moreover have "replicate (15 - length ?s) NUL @ [NUL] = NUL # replicate (15 - length ?s) NUL"
    by (simp add: replicate_append_same)
  ultimately show ?thesis
    by simp
qed

lemma check_interface_c_string:
  assumes "length (m_ifr_name this) = IFNAMSIZ" and "NUL \<in> set interface_str"
  shows "check_interface if_nametoindex this interface_str =
     Inr (if_nametoindex (take 15 (c_str interface_str)) \<noteq> 0,
          this\<lparr>m_ifr_name := take 15 (c_str interface_str)
                   @ replicate (15 - length (c_str interface_str)) NUL @ [NUL],
               m_ifr_ifindex := if_nametoindex (take 15 (c_str interface_str))\<rparr>)"
proof -
  let ?s = "c_str interface_str"
  let ?name1 = "take 15 ?s @ replicate (15 - length ?s) NUL @ drop 15 (m_ifr_name this)"
  let ?name2 = "take 15 ?s @ replicate (15 - length ?s) NUL @ [NUL]"
  have len: "length (m_ifr_name this) = 16"
    using assms(1) by (simp add: IFNAMSIZ_def)
  have cp: "strncpy (m_ifr_name this) interface_str 15 = Inr ?name1"
    using len assms(2) by (simp add: strncpy_c_string)
  have l1: "length ?name1 = 16"
    using len by auto
  have upd: "?name1[15 := NUL] = ?name2"
    using len by (simp add: terminated_name)
  show ?thesis
    using cp l1 upd stored_name_c_str [of interface_str]
    by (simp add: check_interface_def IFNAMSIZ_def Let_def)
qed

text \<open>C8: for every interface name, given as a character array that holds a C string,
  \<open>check_interface\<close> returns without a failure; the name it stores is the first
  \<open>IFNAMSIZ - 1\<close> characters of the name, the whole name when it is shorter; the
  last character of \<open>ifr_name\<close> is \<open>NUL\<close>; the stored index is what
  \<open>if_nametoindex\<close> yields for the stored name, and the result is true exactly when
  that index is not zero, so that a name the operating system does not know gives
  false with the stored index 0.\<close>

theorem check_interface_resolves:
  assumes "length (m_ifr_name this) = IFNAMSIZ" and "NUL \<in> set interface_str"
  shows "\<exists>found this'.
     check_interface if_nametoindex this interface_str = Inr (found, this') \<and>
     length (m_ifr_name this') = IFNAMSIZ \<and>
     m_ifr_name this' ! (IFNAMSIZ - 1) = NUL \<and>
     c_str (m_ifr_name this') = take (IFNAMSIZ - 1) (c_str interface_str) \<and>
     m_ifr_ifindex this' = if_nametoindex (take (IFNAMSIZ - 1) (c_str interface_str)) \<and>
     found = (if_nametoindex (take (IFNAMSIZ - 1) (c_str interface_str)) \<noteq> 0) \<and>
     (if_nametoindex (take (IFNAMSIZ - 1) (c_str interface_str)) = 0 \<longrightarrow>
        \<not> found \<and> m_ifr_ifindex this' = 0)"
  using check_interface_c_string [OF assms, of if_nametoindex]
    stored_name_length [of "c_str interface_str"]
    stored_name_terminated [of "c_str interface_str"]
    stored_name_c_str [of interface_str]
  by (simp add: IFNAMSIZ_def del: length_append length_take length_replicate)

theorem check_interface_resolves_witness:
  "length (m_ifr_name base_socket) = IFNAMSIZ \<and>
   NUL \<in> set (''can0'' @ [NUL]) \<and>
   check_interface os_if_nametoindex base_socket (''can0'' @ [NUL]) =
     Inr (True, base_socket\<lparr>m_ifr_name := ''can0'' @ replicate 12 NUL, m_ifr_ifindex := 4\<rparr>) \<and>
   NUL \<in> set (''can0_with_a_long_name'' @ [NUL]) \<and>
   check_interface os_if_nametoindex base_socket (''can0_with_a_long_name'' @ [NUL]) =
     Inr (False, base_socket\<lparr>m_ifr_name := ''can0_with_a_lon'' @ [NUL], m_ifr_ifindex := 0\<rparr>) \<and>
   os_if_nametoindex (take (IFNAMSIZ - 1) (c_str (''can0_with_a_long_name'' @ [NUL]))) = 0"
proof -
  have a: "length (m_ifr_name base_socket) = IFNAMSIZ"
    by (simp add: base_socket_def IFNAMSIZ_def)
  have b: "NUL \<in> set (''can0'' @ [NUL])" "NUL \<in> set (''can0_with_a_long_name'' @ [NUL])"
    by simp_all
  have c: "os_if_nametoindex (take (IFNAMSIZ - 1) (c_str (''can0_with_a_long_name'' @ [NUL]))) = 0"
    by code_simp
  show ?thesis
    using a b c check_interface_can0 check_interface_long_name
      check_interface_resolves [OF a b(1), of os_if_nametoindex]
      check_interface_resolves [OF a b(2), of os_if_nametoindex]
    by simp
qed

subsection \<open>Construction\<close>

text \<open>The constructor evaluated on \<open>can0\<close>, on an interface the operating system
  does not know, with a failing bind, without a socket, and with a failing switch to
  CAN FD.\<close>

lemma ctor_can0:
  "CanSocket_ctor os_if_nametoindex (\<lambda>t. (True, t)) (\<lambda>t. (True, t)) base_socket
     (''can0'' @ [NUL]) =
   Inr \<lparr>constructed = base_socket\<lparr>m_ifr_name := ''can0'' @ replicate 12 NUL,
          m_ifr_ifindex := 4, m_can_init := True\<rparr>,
        steps = [CreateSocket, CheckInterface, BindIfSocket, EnableCanFD]\<rparr>"
  by code_simp

lemma ctor_unknown_interface:
  "CanSocket_ctor os_if_nametoindex (\<lambda>t. (True, t)) (\<lambda>t. (True, t)) base_socket
     (''can1'' @ [NUL]) =
   Inr \<lparr>constructed = base_socket\<lparr>m_ifr_name := ''can1'' @ replicate 12 NUL,
          m_ifr_ifindex := 0, m_can_init := False\<rparr>,
        steps = [CreateSocket, CheckInterface]\<rparr>"
  by code_simp

lemma ctor_bind_fails:
  "CanSocket_ctor os_if_nametoindex (\<lambda>t. (False, t\<lparr>m_last_error := 19\<rparr>)) (\<lambda>t. (True, t))
     base_socket (''can0'' @ [NUL]) =
   Inr \<lparr>constructed = base_socket\<lparr>m_last_error := 19,
          m_ifr_name := ''can0'' @ replicate 12 NUL, m_ifr_ifindex := 4, m_can_init := False\<rparr>,
        steps = [CreateSocket, CheckInterface, BindIfSocket]\<rparr>"
  by code_simp

lemma ctor_no_socket:
  "CanSocket_ctor os_if_nametoindex (\<lambda>t. (True, t)) (\<lambda>t. (True, t))
     (base_socket\<lparr>m_socket_init := False\<rparr>) (''can0'' @ [NUL]) =
   Inr \<lparr>constructed = base_socket\<lparr>m_socket_init := False, m_can_init := False\<rparr>,
        steps = [CreateSocket]\<rparr>"
  by code_simp

lemma ctor_canfd_fails:
  "CanSocket_ctor os_if_nametoindex (\<lambda>t. (True, t)) (\<lambda>t. (False, t)) base_socket
     (''can0'' @ [NUL]) =
   Inr \<lparr>constructed = base_socket\<lparr>m_ifr_name := ''can0'' @ replicate 12 NUL,
          m_ifr_ifindex := 4, m_can_init := False\<rparr>,
        steps = [CreateSocket, CheckInterface, BindIfSocket, EnableCanFD]\<rparr>"
  by code_simp

text \<open>C6: the constructor returns an object in every case. It takes the steps in the
  order socket creation, \<open>check_interface\<close>, \<open>bind_if_socket\<close>, \<open>enable_canfd\<close>,
  and takes a step only when every earlier step succeeded: the steps taken end with
  the first one that fails. The object is initialised exactly when all four steps
  succeeded; an interface name for which the lookup yields 0 ends the construction
  after \<open>check_interface\<close>, with the object not initialised.\<close>

theorem ctor_initialises:
  assumes "length (m_ifr_name base) = IFNAMSIZ" and "NUL \<in> set interface_str"
  shows "\<exists>out found this1.
     CanSocket_ctor if_nametoindex bind_if_socket enable_canfd base interface_str = Inr out \<and>
     check_interface if_nametoindex (base\<lparr>m_can_init := False\<rparr>) interface_str =
       Inr (found, this1) \<and>
     found = (if_nametoindex (take (IFNAMSIZ - 1) (c_str interface_str)) \<noteq> 0) \<and>
     (let sock = is_socket_initialized base;
          bound = fst (bind_if_socket this1);
          canfd = fst (enable_canfd (snd (bind_if_socket this1)))
      in steps out =
           (if \<not> sock then [CreateSocket]
            else if \<not> found then [CreateSocket, CheckInterface]
            else if \<not> bound then [CreateSocket, CheckInterface, BindIfSocket]
            else [CreateSocket, CheckInterface, BindIfSocket, EnableCanFD]) \<and>
         is_can_initialized (constructed out) = (sock \<and> found \<and> bound \<and> canfd))"
proof -
  let ?obj = "base\<lparr>m_can_init := False\<rparr>"
  have len: "length (m_ifr_name ?obj) = IFNAMSIZ"
    using assms(1) by simp
  from check_interface_c_string [OF len assms(2), of if_nametoindex]
  obtain found this1 where
    chk: "check_interface if_nametoindex ?obj interface_str = Inr (found, this1)" and
    found: "found = (if_nametoindex (take (IFNAMSIZ - 1) (c_str interface_str)) \<noteq> 0)"
    by (simp add: IFNAMSIZ_def)
  obtain bound this2 where b: "bind_if_socket this1 = (bound, this2)"
    by (cases "bind_if_socket this1")
  obtain canfd this3 where c: "enable_canfd this2 = (canfd, this3)"
    by (cases "enable_canfd this2")
  show ?thesis
    using chk found b c
    by (simp add: CanSocket_ctor_def Let_def is_socket_initialized_def is_can_initialized_def)
qed

theorem ctor_initialises_witness:
  "length (m_ifr_name base_socket) = IFNAMSIZ \<and>
   NUL \<in> set (''can0'' @ [NUL]) \<and>
   CanSocket_ctor os_if_nametoindex (\<lambda>t. (True, t)) (\<lambda>t. (True, t)) base_socket
     (''can0'' @ [NUL]) =
   Inr \<lparr>constructed = base_socket\<lparr>m_ifr_name := ''can0'' @ replicate 12 NUL,
          m_ifr_ifindex := 4, m_can_init := True\<rparr>,
        steps = [CreateSocket, CheckInterface, BindIfSocket, EnableCanFD]\<rparr> \<and>
   is_can_initialized (base_socket\<lparr>m_ifr_name := ''can0'' @ replicate 12 NUL,
          m_ifr_ifindex := 4, m_can_init := True\<rparr>) \<and>
   NUL \<in> set (''can1'' @ [NUL]) \<and>
   CanSocket_ctor os_if_nametoindex (\<lambda>t. (True, t)) (\<lambda>t. (True, t)) base_socket
     (''can1'' @ [NUL]) =
   Inr \<lparr>constructed = base_socket\<lparr>m_ifr_name := ''can1'' @ replicate 12 NUL,
          m_ifr_ifindex := 0, m_can_init := False\<rparr>,
        steps = [CreateSocket, CheckInterface]\<rparr>"
proof -
  have a: "length (m_ifr_name base_socket) = IFNAMSIZ"
    by (simp add: base_socket_def IFNAMSIZ_def)
  have b: "NUL \<in> set (''can0'' @ [NUL])" "NUL \<in> set (''can1'' @ [NUL])"
    by simp_all
  show ?thesis
    using a b ctor_can0 ctor_unknown_interface
      ctor_initialises [OF a b(1), of os_if_nametoindex "\<lambda>t. (True, t)" "\<lambda>t. (True, t)"]
      ctor_initialises [OF a b(2), of os_if_nametoindex "\<lambda>t. (True, t)" "\<lambda>t. (True, t)"]
    by (simp add: is_can_initialized_def)
qed

subsection \<open>Receiving\<close>

text \<open>A frame decoded into an array of at most 64 bytes fills the array with the
  first bytes of the frame's data.\<close>

lemma decode_payload_fits:
  "wf_frame f \<Longrightarrow> length data_ref \<le> CANFD_MAX_DLEN \<Longrightarrow>
   decode_payload f data_ref = take (length data_ref) (frame_data f)"
  by (simp add: decode_payload_def wf_frame_def)


text \<open>C7: the blocking \<open>receive\<close> is declared with a \<open>CanFDData\<close> array of 64
  bytes, and on an initialised endpoint it returns the whole payload of a frame; the
  time-bounded \<open>receive\<close> is declared with a \<open>CanDataType\<close> array of 8 bytes, and on
  an initialised endpoint it returns the first 8 bytes only, so that two frames with
  the same identifier that differ only from byte 8 on give the same result: the
  payload of a flexible frame beyond 8 bytes cannot be told through the time-bounded
  variant.\<close>

theorem receive_capacities:
  assumes "is_can_initialized this" and "wf_frame f" and "wf_frame g"
    and "length ref64 = receive_blocking_capacity" and "length ref8 = receive_timed_capacity"
  shows "receive_blocking_capacity = 64 \<and> receive_timed_capacity = 8 \<and>
     rx_data (receive_blocking (ReadFrame shape f) this can_id ref64) = frame_data f \<and>
     length (rx_data (receive_blocking (ReadFrame shape f) this can_id ref64)) = 64 \<and>
     rx_data (receive_timed (TimedFrame shape f) this can_id ref8 timeout_us) =
       take 8 (frame_data f) \<and>
     length (rx_data (receive_timed (TimedFrame shape f) this can_id ref8 timeout_us)) = 8 \<and>
     (frame_can_id f = frame_can_id g \<and> take 8 (frame_data f) = take 8 (frame_data g) \<longrightarrow>
        receive_timed (TimedFrame shape f) this can_id ref8 timeout_us =
        receive_timed (TimedFrame shape g) this can_id ref8 timeout_us)"
proof -
  have c: "receive_blocking_capacity = 64" "receive_timed_capacity = 8"
    by (simp_all add: receive_blocking_capacity_def receive_timed_capacity_def
        CAN_FD_DATA_LEN_def CAN_STD_DATA_LEN_def)
  have l: "length (frame_data f) = 64" "length (frame_data g) = 64"
    using assms(2,3) by (simp_all add: wf_frame_def CANFD_MAX_DLEN_def)
  have d64: "decode_payload f ref64 = frame_data f"
    using assms(2,4) c l by (simp add: decode_payload_fits CANFD_MAX_DLEN_def)
  have d8: "decode_payload f ref8 = take 8 (frame_data f)"
    "decode_payload g ref8 = take 8 (frame_data g)"
    using assms(2,3,5) c by (simp_all add: decode_payload_fits CANFD_MAX_DLEN_def)
  show ?thesis
    using assms(1) c d64 d8 l by (simp add: receive_blocking_def receive_timed_def)
qed

theorem receive_capacities_witness:
  "is_can_initialized ready_socket \<and>
   wf_frame flexible_frame \<and>
   wf_frame (flexible_frame\<lparr>frame_data := payload64[8 := 0xAA]\<rparr>) \<and>
   length rx_buffer64 = receive_blocking_capacity \<and>
   length rx_buffer8 = receive_timed_capacity \<and>
   take 8 (frame_data flexible_frame) =
     take 8 (frame_data (flexible_frame\<lparr>frame_data := payload64[8 := 0xAA]\<rparr>)) \<and>
   flexible_frame \<noteq> flexible_frame\<lparr>frame_data := payload64[8 := 0xAA]\<rparr> \<and>
   receive_timed (TimedFrame Flexible flexible_frame) ready_socket 0 rx_buffer8 1000 =
     receive_timed (TimedFrame Flexible (flexible_frame\<lparr>frame_data := payload64[8 := 0xAA]\<rparr>))
       ready_socket 0 rx_buffer8 1000 \<and>
   rx_data (receive_timed (TimedFrame Flexible flexible_frame) ready_socket 0 rx_buffer8 1000) =
     payload8 \<and>
   rx_data (receive_blocking (ReadFrame Flexible flexible_frame) ready_socket 0 rx_buffer64) =
     payload64"
proof -
  let ?g = "flexible_frame\<lparr>frame_data := payload64[8 := 0xAA]\<rparr>"
  have i: "is_can_initialized ready_socket"
    by (rule ready_socket_initialized)
  have w: "wf_frame flexible_frame" "wf_frame ?g"
    by (simp_all add: wf_frame_def flexible_frame_def length_payload64 CANFD_MAX_DLEN_def)
  have b: "length rx_buffer64 = receive_blocking_capacity"
    "length rx_buffer8 = receive_timed_capacity"
    by (simp_all add: rx_buffer64_def rx_buffer8_def receive_blocking_capacity_def
        receive_timed_capacity_def CAN_FD_DATA_LEN_def CAN_STD_DATA_LEN_def)
  have t: "take 8 (frame_data flexible_frame) = take 8 (frame_data ?g)"
    by (simp add: flexible_frame_def)
  have p: "take 8 payload64 = payload8"
    by code_simp
  have ne: "flexible_frame \<noteq> ?g"
    by code_simp
  have fd: "frame_data flexible_frame = payload64"
    by (simp add: flexible_frame_def)
  have id: "frame_can_id flexible_frame = frame_can_id ?g"
    by simp
  note r = receive_capacities [OF i w b, of Flexible 0 1000]
  have eq: "receive_timed (TimedFrame Flexible flexible_frame) ready_socket 0 rx_buffer8 1000 =
      receive_timed (TimedFrame Flexible ?g) ready_socket 0 rx_buffer8 1000"
    using r id t by blast
  have "rx_data (receive_timed (TimedFrame Flexible flexible_frame) ready_socket 0 rx_buffer8 1000) =
      take 8 (frame_data flexible_frame)"
    using r by blast
  then have x: "rx_data (receive_timed (TimedFrame Flexible flexible_frame) ready_socket 0
      rx_buffer8 1000) = payload8"
    by (simp only: fd p)
  have "rx_data (receive_blocking (ReadFrame Flexible flexible_frame) ready_socket 0 rx_buffer64) =
      frame_data flexible_frame"
    using r by blast
  then have y: "rx_data (receive_blocking (ReadFrame Flexible flexible_frame) ready_socket 0
      rx_buffer64) = payload64"
    by (simp only: fd)
  show ?thesis
    by (intro conjI) (fact i w b t ne eq x y)+
qed




end
